theory Spec2Isabelle
  imports Main
begin

section \<open>Domain vocabulary\<close>

text \<open>
  Positions are integer pairs \<open>(row, col)\<close>; colours and keys are strings. The Python
  dictionaries \<open>goals\<close>, \<open>agents\<close>, \<open>boxes\<close> map a key to a list of \<open>(position, colour)\<close>
  entries. Python dictionaries keep insertion order and the code reads
  \<open>list(d.values())[0]\<close>, so they are association lists here.
\<close>

type_synonym pos = "int \<times> int"
type_synonym color = string
type_synonym key = string
type_synonym entry = "pos \<times> color"
type_synonym objdict = "(key \<times> entry list) list"
type_synonym action = string
type_synonym timeline = "(int \<times> pos) list"
type_synonym overlay = "(int \<times> (key \<times> pos) list) list"

datatype error =
    IndexError | KeyError | TypeError | ValueError | NameError
  | ResourceLimit | IncorrectTask

datatype STATUS = STATUS_ok | STATUS_fail | STATUS_init

text \<open>Sequencing of fallible steps: the first raise ends the computation.\<close>

fun bind_err :: "error + 'a \<Rightarrow> ('a \<Rightarrow> error + 'b) \<Rightarrow> error + 'b" where
  "bind_err (Inl e) k = Inl e"
| "bind_err (Inr x) k = k x"

text \<open>\<open>xs[0]\<close>: raises IndexError on the empty list.\<close>

fun first :: "'a list \<Rightarrow> error + 'a" where
  "first [] = Inl IndexError"
| "first (x # xs) = Inr x"

text \<open>\<open>d[k]\<close> on a dictionary: raises KeyError when the key is absent.\<close>

fun dict_get :: "('k \<times> 'v) list \<Rightarrow> 'k \<Rightarrow> error + 'v" where
  "dict_get [] k = Inl KeyError"
| "dict_get ((k', v) # d) k = (if k' = k then Inr v else dict_get d k)"

text \<open>\<open>d[k] = v\<close>: an existing key keeps its place, a new key goes to the end.\<close>

fun dict_set :: "('k \<times> 'v) list \<Rightarrow> 'k \<Rightarrow> 'v \<Rightarrow> ('k \<times> 'v) list" where
  "dict_set [] k v = [(k, v)]"
| "dict_set ((k', v') # d) k v = (if k' = k then (k, v) # d else (k', v') # dict_set d k v)"

section \<open>States (the fields of \<open>StateInit\<close> that the sources read and write)\<close>

text \<open>
  \<open>explored\<close> holds the string representations of visited states; \<open>track_back\<close> applies
  \<open>eval\<close> to each and reads a list of object dictionaries, which is what is stored here.
  \<open>concurrent\<close> is the overlay a \<open>StateConcurrent\<close> adds (\<open>None\<close> for a plain state).
\<close>

record state =
  goals :: objdict
  agents :: objdict
  boxes :: objdict
  agentColor :: "(color \<times> key list) list"
  explored :: "objdict list list"
  state_g :: int
  state_h :: int
  state_f :: int
  state_t :: int
  concurrent :: "overlay option"

section \<open>Messages and agents (bdi.py)\<close>

record message =
  object_problem :: key
  msg_color :: color
  requester :: key
  msg_status :: STATUS
  time :: "timeline option"

text \<open>
  The heuristic objects an agent can hold: \<open>EasyRule()\<close>, \<open>WeightedRule(weight)\<close> and
  the \<open>dGraph\<close> instance that searchclient.py builds. (\<open>GoAway\<close> is not constructed by
  any of the sources.)
\<close>

datatype heuristic = EasyRule | WeightedRule string | dGraph

record agent =
  task :: state
  init_task :: state
  heuristic :: heuristic
  color :: color
  name :: key
  init_pos :: pos
  status :: STATUS
  helping :: "message option"
  saved_solution :: "action list option"

text \<open>
  \<open>Agent.__init__\<close>. The three index chains are evaluated in the order of the source:
  \<open>list(task.goals.values())[0][0][1]\<close>, \<open>list(task.agents.keys())[0]\<close>,
  \<open>list(task.agents.values())[0][0][0]\<close>. An absent heuristic defaults to EasyRule.
\<close>

definition Agent_init :: "state \<Rightarrow> heuristic option \<Rightarrow> error + agent" where
  "Agent_init tsk heur =
     bind_err (first (map snd (goals tsk))) (\<lambda>gs.
     bind_err (first gs) (\<lambda>g0.
     bind_err (first (map fst (agents tsk))) (\<lambda>nm.
     bind_err (first (map snd (agents tsk))) (\<lambda>as.
     bind_err (first as) (\<lambda>a0.
       Inr \<lparr> task = tsk, init_task = tsk,
             heuristic = (case heur of None \<Rightarrow> EasyRule | Some hr \<Rightarrow> hr),
             color = snd g0, name = nm, init_pos = fst a0,
             status = STATUS_init, helping = None, saved_solution = None \<rparr>)))))"

section \<open>State accessors\<close>

text \<open>
  Modelled from the spec: the accessor methods of \<open>StateInit\<close> (module actions.py is not
  among the sources). The spec gives \<open>agents\<close>, \<open>boxes\<close> and \<open>goals\<close> as mappings
  \<open>key \<rightarrow> list[(position, color)]\<close>; each accessor is the lookup its name says, and a
  lookup of an absent key raises KeyError. \<open>agentColor\<close> is read by the heuristics both
  with \<open>in\<close> and through \<open>getAgentsByColor\<close>, which yields agent keys.
\<close>

definition getGoalKeys :: "state \<Rightarrow> key list" where
  "getGoalKeys s = map fst (goals s)"

definition getGoalsByKey :: "state \<Rightarrow> key \<Rightarrow> error + entry list" where
  "getGoalsByKey s k = dict_get (goals s) k"

definition getBoxesByKey :: "state \<Rightarrow> key \<Rightarrow> error + entry list" where
  "getBoxesByKey s k = dict_get (boxes s) k"

definition getAgentsByKey :: "state \<Rightarrow> key \<Rightarrow> error + entry list" where
  "getAgentsByKey s k = dict_get (agents s) k"

definition getAgentsByColor :: "state \<Rightarrow> color \<Rightarrow> error + key list" where
  "getAgentsByColor s c = dict_get (agentColor s) c"

definition in_agentColor :: "state \<Rightarrow> color \<Rightarrow> bool" where
  "in_agentColor s c = (c \<in> set (map fst (agentColor s)))"

text \<open>
  Modelled from the spec: \<open>addGoal(key, position, color)\<close>, a construction operation of
  the state: the entry is appended under its key.
\<close>

definition addGoal :: "state \<Rightarrow> key \<Rightarrow> pos \<Rightarrow> color \<Rightarrow> state" where
  "addGoal s k p c =
     s\<lparr>goals := (case dict_get (goals s) k of
                   Inl e \<Rightarrow> dict_set (goals s) k [(p, c)]
                 | Inr es \<Rightarrow> dict_set (goals s) k (es @ [(p, c)]))\<rparr>"

text \<open>Modelled from the spec: \<open>forget_exploration()\<close> resets the \<open>explored\<close> set.\<close>

definition forget_exploration :: "state \<Rightarrow> state" where
  "forget_exploration s = s\<lparr>explored := []\<rparr>"

text \<open>
  Modelled from the spec: \<open>StateConcurrent(state, overlay)\<close> wraps a base state and adds
  the overlay \<open>t \<rightarrow> (object key \<rightarrow> position)\<close>.
\<close>

definition StateConcurrent :: "state \<Rightarrow> overlay \<Rightarrow> state" where
  "StateConcurrent s ov = s\<lparr>concurrent := Some ov\<rparr>"

section \<open>Heuristics (heuristics.py)\<close>

definition manha_dist :: "pos \<Rightarrow> pos \<Rightarrow> int" where
  "manha_dist a b = \<bar>fst a - fst b\<bar> + \<bar>snd a - snd b\<bar>"

text \<open>\<open>min(xs)\<close>: raises ValueError on the empty list.\<close>

fun py_min :: "int list \<Rightarrow> error + int" where
  "py_min [] = Inl ValueError"
| "py_min (x # xs) = Inr (fold min xs x)"

text \<open>\<open>str.lower()\<close> on keys, which are ASCII: \<open>A..Z\<close> go to \<open>a..z\<close>.\<close>

definition lower_char :: "char \<Rightarrow> char" where
  "lower_char c =
     (let n = (of_char c :: nat) in if 65 \<le> n \<and> n \<le> 90 then char_of (n + 32) else c)"

definition lower :: "string \<Rightarrow> string" where
  "lower k = map lower_char k"

text \<open>
  The innermost loop of the three rules: one agent-to-box distance is appended for every
  agent key; \<open>getAgentsByKey(agent_key)[0][0]\<close> is the agent's position.
\<close>

fun agents_loop :: "state \<Rightarrow> pos \<Rightarrow> key list \<Rightarrow> int list \<Rightarrow> error + int list" where
  "agents_loop s box_pos [] agt_box_costs = Inr agt_box_costs"
| "agents_loop s box_pos (agent_key # ks) agt_box_costs =
     bind_err (getAgentsByKey s agent_key) (\<lambda>es.
     bind_err (first es) (\<lambda>e0.
       agents_loop s box_pos ks (agt_box_costs @ [manha_dist (fst e0) box_pos])))"

subsection \<open>EasyRule\<close>

text \<open>
  The loop over \<open>box_params\<close>. The accumulator is \<open>(box_goal_costs, agt_box_costs)\<close>. The
  \<open>continue\<close> on distance zero sits inside the test on \<open>agentColor\<close>, as in the source.
\<close>

fun EasyRule_boxes ::
  "state \<Rightarrow> pos \<Rightarrow> color \<Rightarrow> entry list \<Rightarrow> int list \<times> int list \<Rightarrow> error + (int list \<times> int list)"
where
  "EasyRule_boxes s goal_pos goal_color [] acc = Inr acc"
| "EasyRule_boxes s goal_pos goal_color ((box_pos, c) # bs) (box_goal_costs, agt_box_costs) =
     (if in_agentColor s goal_color then
        bind_err (getAgentsByColor s goal_color) (\<lambda>agent_keys.
          if manha_dist goal_pos box_pos = 0 then
            EasyRule_boxes s goal_pos goal_color bs (box_goal_costs, agt_box_costs)
          else
            bind_err (agents_loop s box_pos agent_keys agt_box_costs) (\<lambda>abc.
              EasyRule_boxes s goal_pos goal_color bs
                (box_goal_costs @ [manha_dist box_pos goal_pos], abc)))
      else
        EasyRule_boxes s goal_pos goal_color bs
          (box_goal_costs @ [manha_dist box_pos goal_pos], agt_box_costs))"

text \<open>The loop over \<open>goal_params\<close>; the accumulator is \<open>(box_goal_cost, agt_box_costs)\<close>.\<close>

fun EasyRule_goals ::
  "state \<Rightarrow> entry list \<Rightarrow> entry list \<Rightarrow> int \<times> int list \<Rightarrow> error + (int \<times> int list)"
where
  "EasyRule_goals s box_params [] acc = Inr acc"
| "EasyRule_goals s box_params ((goal_pos, goal_color) # gs) (box_goal_cost, agt_box_costs) =
     bind_err (EasyRule_boxes s goal_pos goal_color box_params ([], agt_box_costs)) (\<lambda>(bgcs, abc).
       if length bgcs > 0 then
         bind_err (py_min bgcs) (\<lambda>m. EasyRule_goals s box_params gs (box_goal_cost + m, abc))
       else EasyRule_goals s box_params gs (box_goal_cost, abc))"

text \<open>
  The loop over the goal keys; the accumulator is
  \<open>(box_goal_cost, agt_box_cost, agt_box_costs)\<close>. \<open>agt_box_costs\<close> is not reset between
  keys, and its sum is added after every key.
\<close>

fun EasyRule_keys ::
  "state \<Rightarrow> key list \<Rightarrow> int \<times> int \<times> int list \<Rightarrow> error + (int \<times> int \<times> int list)"
where
  "EasyRule_keys s [] acc = Inr acc"
| "EasyRule_keys s (k # ks) (box_goal_cost, agt_box_cost, agt_box_costs) =
     bind_err (getGoalsByKey s k) (\<lambda>goal_params.
     bind_err (getBoxesByKey s k) (\<lambda>box_params.
     bind_err (EasyRule_goals s box_params goal_params (box_goal_cost, agt_box_costs)) (\<lambda>(bgc, abc).
       EasyRule_keys s ks
         (bgc, (if length abc > 0 then agt_box_cost + sum_list abc else agt_box_cost), abc))))"

definition EasyRule_state :: "state \<Rightarrow> error + state" where
  "EasyRule_state s =
     bind_err (EasyRule_keys s (getGoalKeys s) (0, 0, [])) (\<lambda>(box_goal_cost, agt_box_cost, abc).
       let h = box_goal_cost + agt_box_cost
       in Inr (s\<lparr>state_h := h, state_f := h * 5 + state_g s\<rparr>))"

text \<open>Scoring a list of states in place: the states are returned updated.\<close>

fun score_states :: "(state \<Rightarrow> error + state) \<Rightarrow> state list \<Rightarrow> error + state list" where
  "score_states sc [] = Inr []"
| "score_states sc (s # ss) =
     bind_err (sc s) (\<lambda>s'. bind_err (score_states sc ss) (\<lambda>ss'. Inr (s' # ss')))"

subsection \<open>WeightedRule\<close>

text \<open>
  As EasyRule, but \<open>getAgentsByColor\<close> is called without the test on \<open>agentColor\<close>, and the
  minimum is multiplied by 10 when \<open>key.lower() == self.weight\<close>.
\<close>

fun WeightedRule_boxes ::
  "state \<Rightarrow> pos \<Rightarrow> color \<Rightarrow> entry list \<Rightarrow> int list \<times> int list \<Rightarrow> error + (int list \<times> int list)"
where
  "WeightedRule_boxes s goal_pos goal_color [] acc = Inr acc"
| "WeightedRule_boxes s goal_pos goal_color ((box_pos, c) # bs) (box_goal_costs, agt_box_costs) =
     bind_err (getAgentsByColor s goal_color) (\<lambda>agent_keys.
       if manha_dist goal_pos box_pos = 0 then
         WeightedRule_boxes s goal_pos goal_color bs (box_goal_costs, agt_box_costs)
       else
         bind_err (agents_loop s box_pos agent_keys agt_box_costs) (\<lambda>abc.
           WeightedRule_boxes s goal_pos goal_color bs
             (box_goal_costs @ [manha_dist box_pos goal_pos], abc)))"

fun WeightedRule_goals ::
  "string \<Rightarrow> key \<Rightarrow> state \<Rightarrow> entry list \<Rightarrow> entry list \<Rightarrow> int \<times> int list \<Rightarrow> error + (int \<times> int list)"
where
  "WeightedRule_goals weight k s box_params [] acc = Inr acc"
| "WeightedRule_goals weight k s box_params ((goal_pos, goal_color) # gs) (box_goal_cost, agt_box_costs) =
     bind_err (WeightedRule_boxes s goal_pos goal_color box_params ([], agt_box_costs)) (\<lambda>(bgcs, abc).
       if length bgcs > 0 then
         bind_err (py_min bgcs) (\<lambda>m.
           let box_cost = (if lower k = weight then m * 10 else m)
           in WeightedRule_goals weight k s box_params gs (box_goal_cost + box_cost, abc))
       else WeightedRule_goals weight k s box_params gs (box_goal_cost, abc))"

fun WeightedRule_keys ::
  "string \<Rightarrow> state \<Rightarrow> key list \<Rightarrow> int \<times> int \<times> int list \<Rightarrow> error + (int \<times> int \<times> int list)"
where
  "WeightedRule_keys weight s [] acc = Inr acc"
| "WeightedRule_keys weight s (k # ks) (box_goal_cost, agt_box_cost, agt_box_costs) =
     bind_err (getGoalsByKey s k) (\<lambda>goal_params.
     bind_err (getBoxesByKey s k) (\<lambda>box_params.
     bind_err (WeightedRule_goals weight k s box_params goal_params (box_goal_cost, agt_box_costs))
       (\<lambda>(bgc, abc).
         WeightedRule_keys weight s ks
           (bgc, (if length abc > 0 then agt_box_cost + sum_list abc else agt_box_cost), abc))))"

definition WeightedRule_state :: "string \<Rightarrow> state \<Rightarrow> error + state" where
  "WeightedRule_state weight s =
     bind_err (WeightedRule_keys weight s (getGoalKeys s) (0, 0, []))
       (\<lambda>(box_goal_cost, agt_box_cost, abc).
         let h = box_goal_cost + agt_box_cost
         in Inr (s\<lparr>state_h := h, state_f := h * 5 + state_g s\<rparr>))"

subsection \<open>dGraph\<close>

text \<open>
  \<open>dGraph.__call__\<close> reads the first agent, box and goal position of the state and then
  calls \<open>initializeGraphAttributes(state, ...)\<close> as a bare name. The name is bound only as
  a method of the class; the module defines no global of that name (its globals are
  \<open>manha_dist\<close>, the five classes and the imports), so the call raises NameError. Nothing
  after it runs: \<open>findPathPart\<close> is not reached and \<open>h\<close>, \<open>f\<close> are not written.
\<close>

definition dGraph_state :: "state \<Rightarrow> error + state" where
  "dGraph_state s =
     bind_err (first (map snd (agents s))) (\<lambda>as.
     bind_err (first as) (\<lambda>agt.
     bind_err (first (map snd (boxes s))) (\<lambda>bs.
     bind_err (first bs) (\<lambda>box.
     bind_err (first (map snd (goals s))) (\<lambda>gs.
     bind_err (first gs) (\<lambda>goal.
       Inl NameError))))))"

subsection \<open>Calling a heuristic object\<close>

text \<open>
  Costs that may be \<open>float("inf")\<close>. Every \<open>__call__\<close> of the module scores the states
  in place and either runs to its end or, on an empty list, executes \<open>return None\<close>: its
  Python result is \<open>None\<close>.
\<close>

datatype xcost = Fin int | PInf

definition heuristic_call ::
  "heuristic \<Rightarrow> state list \<Rightarrow> error + (state list \<times> xcost option)" where
  "heuristic_call hr states =
     (case hr of
        EasyRule \<Rightarrow> bind_err (score_states EasyRule_state states) (\<lambda>ss. Inr (ss, None))
      | WeightedRule w \<Rightarrow> bind_err (score_states (WeightedRule_state w) states) (\<lambda>ss. Inr (ss, None))
      | dGraph \<Rightarrow> bind_err (score_states dGraph_state states) (\<lambda>ss. Inr (ss, None)))"

section \<open>The A* kernel (emergency_aStar.py)\<close>

text \<open>
  \<open>BestFirstSearch.calc_heuristic_for\<close>. The kernel stores the heuristic it is given but
  scores states with this method. The accumulator of the loops is
  \<open>(boxGoalCost, agtBoxCosts)\<close>.
\<close>

fun calc_agents ::
  "state \<Rightarrow> pos \<Rightarrow> pos \<Rightarrow> key list \<Rightarrow> int \<times> int list \<Rightarrow> error + (int \<times> int list)"
where
  "calc_agents s goalPos boxPos [] acc = Inr acc"
| "calc_agents s goalPos boxPos (agentKey # ks) (boxGoalCost, agtBoxCosts) =
     bind_err (getAgentsByKey s agentKey) (\<lambda>es.
     bind_err (first es) (\<lambda>e0.
       calc_agents s goalPos boxPos ks
         (boxGoalCost + manha_dist boxPos goalPos, agtBoxCosts @ [manha_dist (fst e0) boxPos])))"

fun calc_boxes ::
  "state \<Rightarrow> pos \<Rightarrow> color \<Rightarrow> entry list \<Rightarrow> int \<times> int list \<Rightarrow> error + (int \<times> int list)"
where
  "calc_boxes s goalPos goalColor [] acc = Inr acc"
| "calc_boxes s goalPos goalColor ((boxPos, c) # bs) acc =
     bind_err (getAgentsByColor s goalColor) (\<lambda>agentKeys.
     bind_err (calc_agents s goalPos boxPos agentKeys acc) (\<lambda>acc'.
       calc_boxes s goalPos goalColor bs acc'))"

fun calc_goals ::
  "state \<Rightarrow> entry list \<Rightarrow> entry list \<Rightarrow> int \<times> int list \<Rightarrow> error + (int \<times> int list)"
where
  "calc_goals s boxParams [] acc = Inr acc"
| "calc_goals s boxParams ((goalPos, goalColor) # gs) acc =
     bind_err (calc_boxes s goalPos goalColor boxParams acc) (\<lambda>acc'.
       calc_goals s boxParams gs acc')"

fun calc_keys :: "state \<Rightarrow> key list \<Rightarrow> int \<times> int list \<Rightarrow> error + (int \<times> int list)" where
  "calc_keys s [] acc = Inr acc"
| "calc_keys s (k # ks) acc =
     bind_err (getGoalsByKey s k) (\<lambda>goalParams.
     bind_err (getBoxesByKey s k) (\<lambda>boxParams.
     bind_err (calc_goals s boxParams goalParams acc) (\<lambda>acc'.
       calc_keys s ks acc')))"

definition calc_state :: "key list \<Rightarrow> state \<Rightarrow> error + state" where
  "calc_state goalKeys s =
     bind_err (calc_keys s goalKeys (0, [])) (\<lambda>(boxGoalCost, agtBoxCosts).
     bind_err (py_min agtBoxCosts) (\<lambda>agtBoxCost.
       let h = boxGoalCost + agtBoxCost
       in Inr (s\<lparr>state_h := h, state_f := state_g s + h\<rparr>)))"

definition calc_heuristic_for :: "state list \<Rightarrow> error + state list" where
  "calc_heuristic_for states =
     (case states of
        [] \<Rightarrow> Inr []
      | s0 # rest \<Rightarrow> score_states (calc_state (getGoalKeys s0)) states)"

text \<open>
  The frontier is a \<open>PriorityQueue\<close> of tuples \<open>(f, count, state)\<close>. It is kept here as
  the list of its entries in insertion order; \<open>get()\<close> hands out the least tuple, and
  Python compares tuples by the first component, then the second. Two entries that tie on
  both would be compared on the states; the counter is unique within one instance, so this
  does not arise. \<open>get()\<close> on an empty queue blocks, which is \<open>None\<close> here.
\<close>

type_synonym pq_entry = "int \<times> nat \<times> state"

record BestFirstSearch =
  frontier :: "pq_entry list"
  leaf :: state
  count :: nat

definition entry_less :: "pq_entry \<Rightarrow> pq_entry \<Rightarrow> bool" where
  "entry_less a b =
     (fst a < fst b \<or> (fst a = fst b \<and> fst (snd a) < fst (snd b)))"

fun pq_min :: "pq_entry \<Rightarrow> pq_entry list \<Rightarrow> pq_entry" where
  "pq_min m [] = m"
| "pq_min m (e # es) = pq_min (if entry_less e m then e else m) es"

definition pq_get :: "pq_entry list \<Rightarrow> (pq_entry \<times> pq_entry list) option" where
  "pq_get fr =
     (case fr of
        [] \<Rightarrow> None
      | e # es \<Rightarrow> (let m = pq_min e es in Some (m, remove1 m fr)))"

text \<open>\<open>BestFirstSearch.__init__\<close>: the initial leaf is scored; the frontier starts empty.\<close>

definition BestFirstSearch_init :: "state \<Rightarrow> error + BestFirstSearch" where
  "BestFirstSearch_init init_state =
     bind_err (calc_heuristic_for [init_state]) (\<lambda>ss.
     bind_err (first ss) (\<lambda>s'.
       Inr \<lparr>frontier = [], leaf = s', count = 0\<rparr>))"

text \<open>The loop \<open>for state in explored_states: self.count += 1; self.frontier.put(...)\<close>.\<close>

fun put_all :: "state list \<Rightarrow> nat \<Rightarrow> pq_entry list \<Rightarrow> nat \<times> pq_entry list" where
  "put_all [] cnt fr = (cnt, fr)"
| "put_all (s # ss) cnt fr = put_all ss (cnt + 1) (fr @ [(state_f s, cnt + 1, s)])"

text \<open>
  \<open>aStarSearch.get_and_remove_leaf\<close>. The successor function \<open>explore\<close> of the state is
  not among the sources and is a parameter.
\<close>

definition aStarSearch_get_and_remove_leaf ::
  "(state \<Rightarrow> state list) \<Rightarrow> BestFirstSearch \<Rightarrow> (error + BestFirstSearch) option" where
  "aStarSearch_get_and_remove_leaf explore srch =
     (case calc_heuristic_for (explore (leaf srch)) of
        Inl e \<Rightarrow> Some (Inl e)
      | Inr explored_states \<Rightarrow>
          (let (cnt, fr) = put_all explored_states (count srch) (frontier srch)
           in case pq_get fr of
                None \<Rightarrow> None
              | Some (m, fr') \<Rightarrow> Some (Inr \<lparr>frontier = fr', leaf = snd (snd m), count = cnt\<rparr>)))"

text \<open>
  The invariant of the frontier: along the insertion order the counters increase strictly,
  and none exceeds the counter of the search.
\<close>

definition frontier_inv :: "BestFirstSearch \<Rightarrow> bool" where
  "frontier_inv srch =
     (sorted_wrt (<) (map (fst \<circ> snd) (frontier srch))
      \<and> list_all (\<lambda>e. fst (snd e) \<le> count srch) (frontier srch))"

section \<open>The BDI loop (bdi.py)\<close>

text \<open>
  What \<open>Agent\<close> uses and the sources do not contain is a parameter: the strategy class
  (module strategy.py) with its operations, the state methods \<open>isGoalState\<close>,
  \<open>bestPath(format=...)\<close> and \<open>Neighbour\<close>, and the memory probe \<open>get_usage()\<close> with its
  ceiling \<open>MAX_USAGE\<close>. \<open>get_usage\<close> gives the reading of the \<open>n\<close>-th poll of a search.
\<close>

record ('st, 'm) env =
  strategy_new :: "state \<Rightarrow> heuristic \<Rightarrow> 'st"
  strategy_leaf :: "'st \<Rightarrow> state"
  strategy_explore_and_add :: "'st \<Rightarrow> 'st"
  strategy_frontier_empty :: "'st \<Rightarrow> bool"
  strategy_get_and_remove_leaf :: "'st \<Rightarrow> 'st"
  strategy_walk_best_path :: "'st \<Rightarrow> action list"
  isGoalState :: "state \<Rightarrow> bool"
  bestPath_format :: "state \<Rightarrow> key \<Rightarrow> timeline option"
  Neighbour :: "state \<Rightarrow> pos \<Rightarrow> pos \<Rightarrow> bool"
  get_usage :: "nat \<Rightarrow> 'm"
  MAX_USAGE :: "'m"

text \<open>\<open>Message.__init__\<close>: an answer (\<open>STATUS.ok\<close>) without a time is refused.\<close>

definition Message_init ::
  "key \<Rightarrow> color \<Rightarrow> key \<Rightarrow> STATUS \<Rightarrow> timeline option \<Rightarrow> error + message" where
  "Message_init obj col req st tm =
     (if st = STATUS_ok \<and> tm = None then Inl IncorrectTask
      else Inr \<lparr>object_problem = obj, msg_color = col, requester = req,
                msg_status = st, time = tm\<rparr>)"

subsection \<open>\<open>consume_message\<close>\<close>

text \<open>
  The loop over \<open>message.time\<close> keeps an event when the position differs from the current
  one, under its time stamp.
\<close>

fun compress_timeline :: "pos \<Rightarrow> key \<Rightarrow> timeline \<Rightarrow> overlay \<Rightarrow> overlay" where
  "compress_timeline curr_pos obj [] conc = conc"
| "compress_timeline curr_pos obj ((t, p) # evs) conc =
     (if fst curr_pos \<noteq> fst p \<or> snd curr_pos \<noteq> snd p
      then compress_timeline p obj evs (dict_set conc t [(obj, p)])
      else compress_timeline curr_pos obj evs conc)"

text \<open>
  The result pairs the outcome with the agent as the call leaves it. In the branch for a
  failed agent \<open>message.time[0][1]\<close> raises TypeError when the time is \<open>None\<close> and
  IndexError when it is empty.
\<close>

definition consume_message :: "agent \<Rightarrow> message \<Rightarrow> (error + unit) \<times> agent" where
  "consume_message a m =
     (if status a = STATUS_fail then
        (case time m of
           None \<Rightarrow> (Inl TypeError, a)
         | Some [] \<Rightarrow> (Inl IndexError, a)
         | Some (ev # evs) \<Rightarrow>
             (let conc = compress_timeline (snd ev) (object_problem m) (ev # evs) []
              in (Inr (), a\<lparr>task := (StateConcurrent (task a) conc)\<lparr>state_t := 0\<rparr>\<rparr>)))
      else
        (Inr (), a\<lparr>helping := Some m, task := init_task a,
                    heuristic := WeightedRule (object_problem m)\<rparr>))"

subsection \<open>\<open>broadcast\<close> and its helpers\<close>

text \<open>\<open>track_back\<close>: the positions of the agent in the explored states.\<close>

fun track_dicts :: "key \<Rightarrow> objdict list \<Rightarrow> pos list \<Rightarrow> error + pos list" where
  "track_dicts nm [] trace = Inr trace"
| "track_dicts nm (object_dict # ds) trace =
     bind_err (first (map fst object_dict)) (\<lambda>k.
       if k = nm then
         bind_err (dict_get object_dict k) (\<lambda>es.
         bind_err (first es) (\<lambda>e0. track_dicts nm ds (trace @ [fst e0])))
       else track_dicts nm ds trace)"

fun track_explored :: "key \<Rightarrow> objdict list list \<Rightarrow> pos list \<Rightarrow> error + pos list" where
  "track_explored nm [] trace = Inr trace"
| "track_explored nm (exp # exps) trace =
     bind_err (track_dicts nm exp trace) (\<lambda>trace'. track_explored nm exps trace')"

definition track_back :: "agent \<Rightarrow> error + pos list" where
  "track_back a = track_explored (name a) (explored (task a)) []"

text \<open>
  \<open>_identify_problem\<close>. The dictionary comprehension keeps, for every box key whose first
  entry has another colour than the agent, that first entry. The result is \<open>None\<close> when
  the loops end without a \<open>return\<close>.
\<close>

fun other_boxes :: "color \<Rightarrow> objdict \<Rightarrow> error + (key \<times> entry) list" where
  "other_boxes col [] = Inr []"
| "other_boxes col ((box, pos_color) # bs) =
     bind_err (first pos_color) (\<lambda>e0.
     bind_err (other_boxes col bs) (\<lambda>rest.
       Inr (if snd e0 \<noteq> col then (box, e0) # rest else rest)))"

fun find_blocking ::
  "(pos \<Rightarrow> pos \<Rightarrow> bool) \<Rightarrow> pos list \<Rightarrow> (key \<times> entry) list \<Rightarrow> (key \<times> color) option" where
  "find_blocking nb agent_trace [] = None"
| "find_blocking nb agent_trace ((box, pos_color) # bs) =
     (if list_ex (\<lambda>agent_pos. nb (fst pos_color) agent_pos) agent_trace
      then Some (box, snd pos_color)
      else find_blocking nb agent_trace bs)"

definition identify_problem :: "('st, 'm) env \<Rightarrow> agent \<Rightarrow> error + (key \<times> color) option" where
  "identify_problem P a =
     bind_err (other_boxes (color a) (boxes (task a))) (\<lambda>bxs.
     bind_err (track_back a) (\<lambda>agent_trace.
       Inr (find_blocking (Neighbour P (task a)) agent_trace bxs)))"

text \<open>\<open>_sos\<close>: unpacking \<open>box, color = None\<close> raises TypeError.\<close>

definition sos :: "('st, 'm) env \<Rightarrow> agent \<Rightarrow> error + message" where
  "sos P a =
     bind_err (identify_problem P a) (\<lambda>r.
       case r of
         None \<Rightarrow> Inl TypeError
       | Some (box, col) \<Rightarrow> Message_init box col (name a) (status a) None)"

text \<open>\<open>_send_success\<close>, called when \<open>helping\<close> holds the message \<open>hm\<close>.\<close>

definition send_success :: "('st, 'm) env \<Rightarrow> agent \<Rightarrow> message \<Rightarrow> (error + message) \<times> agent" where
  "send_success P a hm =
     (let time_pos = bestPath_format P (task a) (object_problem hm)
      in case Message_init (object_problem hm) (msg_color hm) (requester hm) (status a) time_pos of
           Inl e \<Rightarrow> (Inl e, a)
         | Inr msg \<Rightarrow> (Inr msg, a\<lparr>helping := None\<rparr>))"

text \<open>
  \<open>broadcast\<close>: two \<open>if\<close> statements in sequence; the second assigns \<open>message\<close> again.
  \<open>None\<close> is the source's \<open>False\<close> (no message).
\<close>

definition broadcast :: "('st, 'm) env \<Rightarrow> agent \<Rightarrow> (error + message option) \<times> agent" where
  "broadcast P a =
     (let (r1, a1) =
            (if status a = STATUS_fail then
               (case sos P a of
                  Inl e \<Rightarrow> (Inl e, a)
                | Inr msg \<Rightarrow> (Inr (Some msg), a\<lparr>task := forget_exploration (task a)\<rparr>))
             else (Inr None, a))
      in case r1 of
           Inl e \<Rightarrow> (Inl e, a1)
         | Inr message1 \<Rightarrow>
             (case helping a1 of
                None \<Rightarrow> (Inr message1, a1)
              | Some hm \<Rightarrow>
                  (case send_success P a1 hm of
                     (Inl e, a2) \<Rightarrow> (Inl e, a2)
                   | (Inr msg, a2) \<Rightarrow> (Inr (Some msg), a2))))"

subsection \<open>\<open>search\<close>\<close>

text \<open>
  The \<open>while\<close> loop of \<open>Agent.search\<close>. It need not end, so it runs on fuel: one unit per
  iteration, and \<open>None\<close> when the fuel is used up. \<open>polls\<close> counts the calls of
  \<open>get_usage()\<close>. The only write to the agent is \<open>self.task = strategy.leaf\<close> before the
  plan is returned. A plan is \<open>Some\<close> list of actions, the source's \<open>None\<close> is \<open>None\<close>.
\<close>

fun search_loop ::
  "('st, 'm::linorder) env \<Rightarrow> nat \<Rightarrow> nat \<Rightarrow> nat \<Rightarrow> agent \<Rightarrow> 'st
     \<Rightarrow> (error + (action list option \<times> agent)) option"
where
  "search_loop P 0 polls iterations a strategy = None"
| "search_loop P (Suc fuel) polls iterations a strategy =
     (if \<not> isGoalState P (strategy_leaf P strategy) then
        (let iterations1 = (if iterations = 1000 then 0 else iterations) in
         if MAX_USAGE P < get_usage P polls then Some (Inl ResourceLimit)
         else
           (let strategy1 = strategy_explore_and_add P strategy in
            if strategy_frontier_empty P strategy1 then Some (Inr (None, a))
            else
              (let strategy2 = strategy_get_and_remove_leaf P strategy1 in
               if isGoalState P (strategy_leaf P strategy2)
               then Some (Inr (Some (strategy_walk_best_path P strategy2),
                               a\<lparr>task := strategy_leaf P strategy2\<rparr>))
               else search_loop P fuel (Suc polls) (iterations1 + 1) a strategy2)))
      else Some (Inr (None, a)))"

definition search ::
  "('st, 'm::linorder) env \<Rightarrow> nat \<Rightarrow> agent \<Rightarrow> 'st \<Rightarrow> (error + (action list option \<times> agent)) option"
where
  "search P fuel a strategy =
     (if isGoalState P (strategy_leaf P strategy) then Some (Inr (Some [], a))
      else search_loop P fuel 0 0 a strategy)"

text \<open>One iteration of the loop on the strategy: explore, then take the next leaf.\<close>

definition strategy_step :: "('st, 'm) env \<Rightarrow> 'st \<Rightarrow> 'st" where
  "strategy_step P st = strategy_get_and_remove_leaf P (strategy_explore_and_add P st)"

subsection \<open>\<open>solve\<close>\<close>

text \<open>
  The \<open>for i, message in enumerate(inbox)\<close> loop: the first message whose requester is
  the agent's name is consumed and its index is kept in \<open>to_del\<close>. The result \<open>None\<close> is
  the source's \<open>to_del = False\<close>.
\<close>

fun inbox_loop :: "agent \<Rightarrow> nat \<Rightarrow> message list \<Rightarrow> (error + nat option) \<times> agent" where
  "inbox_loop a i [] = (Inr None, a)"
| "inbox_loop a i (m # ms) =
     (if requester m = name a then
        (case consume_message a m of
           (Inl e, a') \<Rightarrow> (Inl e, a')
         | (Inr u, a') \<Rightarrow> (Inr (Some i), a'))
      else inbox_loop a (i + 1) ms)"

text \<open>\<open>if to_del:\<close> holds for an index other than 0; \<open>False\<close> and \<open>0\<close> are both falsy.\<close>

definition truthy :: "nat option \<Rightarrow> bool" where
  "truthy to_del = (case to_del of None \<Rightarrow> False | Some i \<Rightarrow> i \<noteq> 0)"

text \<open>
  Lines 108 to 116 of \<open>solve\<close>. \<open>del inbox[message]\<close> indexes the list with a Message
  object, which raises TypeError; no statement of the block changes the inbox.
\<close>

definition solve_inbox :: "agent \<Rightarrow> message list \<Rightarrow> (error + unit) \<times> agent \<times> message list" where
  "solve_inbox a inbox =
     (if inbox \<noteq> [] \<and> status a = STATUS_fail then
        (case inbox_loop a 0 inbox of
           (Inl e, a') \<Rightarrow> (Inl e, a', inbox)
         | (Inr to_del, a') \<Rightarrow>
             (if truthy to_del then (Inl TypeError, a', inbox) else (Inr (), a', inbox)))
      else (Inr (), a, inbox))"

text \<open>
  \<open>solve\<close> returns \<open>(path, message)\<close>; the result here adds the agent and the inbox as the
  call leaves them, also when it raises. \<open>None\<close>: the search ran out of fuel.
\<close>

definition solve ::
  "('st, 'm::linorder) env \<Rightarrow> nat \<Rightarrow> agent \<Rightarrow> message list
     \<Rightarrow> ((error + (action list option \<times> message option)) \<times> agent \<times> message list) option"
where
  "solve P fuel a inbox =
     (if status a = STATUS_ok \<and> helping a = None then
        (case broadcast P a of
           (Inl e, a') \<Rightarrow> Some (Inl e, a', inbox)
         | (Inr msg, a') \<Rightarrow> Some (Inr (saved_solution a, msg), a', inbox))
      else
        (case solve_inbox a inbox of
           (Inl e, a1, inbox1) \<Rightarrow> Some (Inl e, a1, inbox1)
         | (Inr u, a1, inbox1) \<Rightarrow>
             (let searcher = strategy_new P (task a1) (heuristic a1) in
              case search P fuel a1 searcher of
                None \<Rightarrow> None
              | Some (Inl e) \<Rightarrow> Some (Inl e, a1, inbox1)
              | Some (Inr (path, a2)) \<Rightarrow>
                  (let a3 = a2\<lparr>status := (if path = None then STATUS_fail else STATUS_ok),
                               saved_solution := path\<rparr>
                   in case broadcast P a3 of
                        (Inl e, a4) \<Rightarrow> Some (Inl e, a4, inbox1)
                      | (Inr msg, a4) \<Rightarrow> Some (Inr (path, msg), a4, inbox1)))))"

subsection \<open>\<open>marginal_task_cost\<close>\<close>

text \<open>\<open>min\<close> and \<open>-\<close> on costs; the subtrahend \<open>c_ts\<close> is the integer \<open>f\<close> of a state.\<close>

fun xmin :: "xcost \<Rightarrow> xcost \<Rightarrow> xcost" where
  "xmin PInf c = c"
| "xmin (Fin a) PInf = Fin a"
| "xmin (Fin a) (Fin b) = Fin (min a b)"

fun xsub :: "xcost \<Rightarrow> int \<Rightarrow> xcost" where
  "xsub PInf n = PInf"
| "xsub (Fin a) n = Fin (a - n)"

text \<open>
  The result pairs the cost with the broadcasted task as the heuristic call leaves it
  (it is scored in place). \<open>goal_key\<close> is the first character of the first goal key.
\<close>

definition marginal_task_cost :: "agent \<Rightarrow> state \<Rightarrow> error + (xcost \<times> state)" where
  "marginal_task_cost a broadcasted_task =
     bind_err (first (map snd (goals broadcasted_task))) (\<lambda>gs.
     bind_err (first gs) (\<lambda>(p, col).
     bind_err (first (map fst (goals broadcasted_task))) (\<lambda>k0.
     bind_err (first k0) (\<lambda>goal_key.
       if col \<noteq> color a then Inr (PInf, broadcasted_task)
       else
         bind_err (heuristic_call (heuristic a) [broadcasted_task]) (\<lambda>(bts, r0).
         bind_err (first bts) (\<lambda>bt.
           let c_ts = state_f bt;
               joint_task = addGoal (task a) [goal_key] p col
           in bind_err (heuristic_call (heuristic a) [joint_task]) (\<lambda>(jts, cost).
                let cost1 = (case cost of None \<Rightarrow> PInf | Some c \<Rightarrow> c);
                    c_union = xmin PInf cost1
                in Inr (xsub c_union c_ts, bt))))))))"

section \<open>Concrete inputs\<close>

text \<open>
  A corridor: agent \<open>0\<close> at \<open>(1, 0)\<close>, box \<open>A\<close> at \<open>(1, 1)\<close>, goal \<open>A\<close> at \<open>(1, 3)\<close>, all red.
\<close>

definition ex_state :: state where
  "ex_state = \<lparr>goals = [(''A'', [((1, 3), ''red'')])],
               agents = [(''0'', [((1, 0), ''red'')])],
               boxes = [(''A'', [((1, 1), ''red'')])],
               agentColor = [(''red'', [''0''])],
               explored = [], state_g = 0, state_h = 0, state_f = 0, state_t = 0,
               concurrent = None\<rparr>"

definition ex_state_blue_agent :: state where
  "ex_state_blue_agent = ex_state\<lparr>agents := [(''0'', [((1, 0), ''blue'')])],
                                    agentColor := [(''blue'', [''0''])]\<rparr>"

definition ex_state_empty :: state where
  "ex_state_empty = ex_state\<lparr>goals := [], agents := []\<rparr>"

text \<open>
  Modelled from the spec: \<open>isGoalState()\<close> holds iff every goal cell contains a box of
  the matching key and colour. It instantiates the parameter in the concrete inputs.
\<close>

definition ex_isGoalState :: "state \<Rightarrow> bool" where
  "ex_isGoalState s =
     list_all (\<lambda>(k, es).
       list_all (\<lambda>e. case dict_get (boxes s) k of Inl err \<Rightarrow> False | Inr bs \<Rightarrow> e \<in> set bs) es)
       (goals s)"

text \<open>
  A strategy whose state is its leaf and whose frontier stays empty (no successors), and
  one that walks on for ever over non-goal leaves while the memory reading grows.
\<close>

definition ex_env :: "(state, int) env" where
  "ex_env = \<lparr>strategy_new = (\<lambda>tsk hr. tsk),
             strategy_leaf = (\<lambda>st. st),
             strategy_explore_and_add = (\<lambda>st. st),
             strategy_frontier_empty = (\<lambda>st. True),
             strategy_get_and_remove_leaf = (\<lambda>st. st),
             strategy_walk_best_path = (\<lambda>st. []),
             isGoalState = ex_isGoalState,
             bestPath_format = (\<lambda>s k. Some [(0, (1, 2)), (1, (2, 2))]),
             Neighbour = (\<lambda>s p q. manha_dist p q = 1),
             get_usage = (\<lambda>n. 100),
             MAX_USAGE = 2048\<rparr>"

definition ex_env_walk :: "(nat, int) env" where
  "ex_env_walk = \<lparr>strategy_new = (\<lambda>tsk hr. 0),
             strategy_leaf = (\<lambda>st. ex_state),
             strategy_explore_and_add = (\<lambda>st. st),
             strategy_frontier_empty = (\<lambda>st. False),
             strategy_get_and_remove_leaf = (\<lambda>st. Suc st),
             strategy_walk_best_path = (\<lambda>st. []),
             isGoalState = ex_isGoalState,
             bestPath_format = (\<lambda>s k. None),
             Neighbour = (\<lambda>s p q. manha_dist p q = 1),
             get_usage = (\<lambda>n. 1000 * (int n + 1)),
             MAX_USAGE = 2048\<rparr>"

definition ex_agent :: agent where
  "ex_agent = \<lparr>task = ex_state, init_task = ex_state, heuristic = EasyRule,
               color = ''red'', name = ''0'', init_pos = (1, 0),
               status = STATUS_init, helping = None, saved_solution = None\<rparr>"

definition ex_state_solved :: state where
  "ex_state_solved = ex_state\<lparr>boxes := [(''A'', [((1, 3), ''red'')])]\<rparr>"

definition ex_agent_solved :: agent where
  "ex_agent_solved = ex_agent\<lparr>task := ex_state_solved, init_task := ex_state_solved\<rparr>"

definition ex_env_low_memory :: "(state, int) env" where
  "ex_env_low_memory = ex_env\<lparr>MAX_USAGE := 32\<rparr>"

text \<open>
  Messages: an answer addressed to agent \<open>0\<close> with the timeline of box \<open>B\<close>, and a
  request of agent \<open>1\<close> about box \<open>A\<close>. \<open>ex_state_blocked\<close> has a blue box \<open>B\<close> next to
  the place \<open>(1, 0)\<close> that the explored states record for agent \<open>0\<close>.
\<close>

definition ex_reply :: message where
  "ex_reply = \<lparr>object_problem = ''B'', msg_color = ''blue'', requester = ''0'',
               msg_status = STATUS_ok, time = Some [(0, (1, 2)), (1, (2, 2))]\<rparr>"

definition ex_request :: message where
  "ex_request = \<lparr>object_problem = ''A'', msg_color = ''red'', requester = ''1'',
                 msg_status = STATUS_fail, time = None\<rparr>"

definition ex_agent_failed :: agent where
  "ex_agent_failed = ex_agent\<lparr>status := STATUS_fail\<rparr>"

definition ex_state_blocked :: state where
  "ex_state_blocked =
     ex_state\<lparr>boxes := [(''A'', [((1, 1), ''red'')]), (''B'', [((0, 0), ''blue'')])],
              explored := [[[(''0'', [((1, 0), ''red'')])], [(''A'', [((1, 1), ''red'')])]]]\<rparr>"

definition ex_agent_failed_helping :: agent where
  "ex_agent_failed_helping =
     ex_agent\<lparr>task := ex_state_blocked, status := STATUS_fail, helping := Some ex_request\<rparr>"

definition ex_agent_consumed :: agent where
  "ex_agent_consumed =
     ex_agent_failed\<lparr>task := ex_state\<lparr>concurrent := Some [(1, [(''B'', (2, 2))])]\<rparr>\<rparr>"

text \<open>A one-goal subtask of the agent's colour: a second goal for key \<open>A\<close> at \<open>(2, 3)\<close>.\<close>

definition ex_subtask :: state where
  "ex_subtask = ex_state\<lparr>goals := [(''A'', [((2, 3), ''red'')])]\<rparr>"

text \<open>
  A successor function with two successors (the agent moved to \<open>(0, 0)\<close>, and the agent in
  place), each one step deeper, and the searches it leads to from \<open>ex_state\<close>.
\<close>

definition ex_moved :: "state \<Rightarrow> state" where
  "ex_moved s = s\<lparr>agents := [(''0'', [((0, 0), ''red'')])]\<rparr>"

definition ex_explore :: "state \<Rightarrow> state list" where
  "ex_explore s =
     [(ex_moved s)\<lparr>state_g := state_g s + 1\<rparr>,
      s\<lparr>state_g := state_g s + 1\<rparr>]"

definition ex_search :: BestFirstSearch where
  "ex_search = \<lparr>frontier = [], leaf = ex_state\<lparr>state_h := 3, state_f := 3\<rparr>, count = 0\<rparr>"

definition ex_search_1 :: BestFirstSearch where
  "ex_search_1 =
     \<lparr>frontier = [(5, 1, (ex_moved ex_state)\<lparr>state_g := 1, state_h := 4, state_f := 5\<rparr>)],
      leaf = ex_state\<lparr>state_g := 1, state_h := 3, state_f := 4\<rparr>,
      count = 2\<rparr>"

definition ex_search_2 :: BestFirstSearch where
  "ex_search_2 =
     \<lparr>frontier = [(6, 3, (ex_moved ex_state)\<lparr>state_g := 2, state_h := 4, state_f := 6\<rparr>),
                  (5, 4, ex_state\<lparr>state_g := 2, state_h := 3, state_f := 5\<rparr>)],
      leaf = (ex_moved ex_state)\<lparr>state_g := 1, state_h := 4, state_f := 5\<rparr>,
      count = 4\<rparr>"

section \<open>Agent construction\<close>

lemma bind_err_Inr_iff: "bind_err m k = Inr y \<longleftrightarrow> (\<exists>x. m = Inr x \<and> k x = Inr y)"
  by (cases m) auto

lemma first_Inr_iff: "first xs = Inr x \<longleftrightarrow> (\<exists>ys. xs = x # ys)"
  by (cases xs) auto

lemma first_Inl: "first xs = Inl e \<Longrightarrow> e = IndexError"
  by (cases xs) auto

lemma bind_err_Inl_cases:
  "bind_err m k = Inl e \<Longrightarrow> m = Inl e \<or> (\<exists>x. m = Inr x \<and> k x = Inl e)"
  by (cases m) auto

lemma Agent_init_Inr_nonempty:
  "Agent_init tsk heur = Inr a \<Longrightarrow> goals tsk \<noteq> [] \<and> agents tsk \<noteq> []"
  by (auto simp: Agent_init_def bind_err_Inr_iff first_Inr_iff)

lemma Agent_init_Inl: "Agent_init tsk heur = Inl e \<Longrightarrow> e = IndexError"
  unfolding Agent_init_def
  by (auto dest!: bind_err_Inl_cases dest: first_Inl)

text \<open>
  C10. Construction succeeds only on a task with at least one goal and one agent. On a task
  whose first goal key and first agent key both have an entry, the agent's colour is the
  colour of the first goal entry (not the colour stored with the agent entry), its name is
  the first agent key and its initial position is the first agent entry's position. On a
  task with no goals or no agents construction raises IndexError.
\<close>

theorem Agent_init_first_goal_first_agent:
  "(goals tsk = (gk, (gpos, gcol) # gs) # grest \<longrightarrow>
    agents tsk = (ak, (apos, acol) # as) # arest \<longrightarrow>
      (\<exists>a. Agent_init tsk heur = Inr a \<and> color a = gcol \<and> name a = ak \<and> init_pos a = apos
           \<and> status a = STATUS_init \<and> helping a = None \<and> saved_solution a = None
           \<and> task a = tsk \<and> init_task a = tsk))
   \<and> (goals tsk = [] \<or> agents tsk = [] \<longrightarrow> Agent_init tsk heur = Inl IndexError)
   \<and> (\<forall>a. Agent_init tsk heur = Inr a \<longrightarrow> goals tsk \<noteq> [] \<and> agents tsk \<noteq> [])"
proof (intro conjI impI allI)
  assume "goals tsk = (gk, (gpos, gcol) # gs) # grest"
    and "agents tsk = (ak, (apos, acol) # as) # arest"
  then show "\<exists>a. Agent_init tsk heur = Inr a \<and> color a = gcol \<and> name a = ak \<and> init_pos a = apos
           \<and> status a = STATUS_init \<and> helping a = None \<and> saved_solution a = None
           \<and> task a = tsk \<and> init_task a = tsk"
    by (simp add: Agent_init_def)
next
  assume empty: "goals tsk = [] \<or> agents tsk = []"
  show "Agent_init tsk heur = Inl IndexError"
  proof (cases "Agent_init tsk heur")
    case (Inl e)
    then show ?thesis using Agent_init_Inl by blast
  next
    case (Inr a)
    then show ?thesis using Agent_init_Inr_nonempty empty by blast
  qed
next
  fix a assume ok: "Agent_init tsk heur = Inr a"
  from Agent_init_Inr_nonempty [OF ok]
  show "goals tsk \<noteq> []" and "agents tsk \<noteq> []" by simp_all
qed

theorem Agent_init_first_goal_first_agent_witness:
  "(\<exists>a. Agent_init ex_state_blue_agent None = Inr a \<and> color a = ''red'' \<and> name a = ''0''
        \<and> init_pos a = (1, 0))
   \<and> Agent_init ex_state_empty None = Inl IndexError"
proof -
  have g: "goals ex_state_blue_agent = (''A'', [((1, 3), ''red'')]) # []"
    and a: "agents ex_state_blue_agent = (''0'', [((1, 0), ''blue'')]) # []"
    by (simp_all add: ex_state_blue_agent_def ex_state_def)
  have e: "goals ex_state_empty = [] \<or> agents ex_state_empty = []"
    by (simp add: ex_state_empty_def)
  from g a Agent_init_first_goal_first_agent
          [of ex_state_blue_agent "''A''" "(1, 3)" "''red''" "[]" "[]" "''0''" "(1, 0)" "''blue''" "[]" "[]" None]
  have 1: "\<exists>a. Agent_init ex_state_blue_agent None = Inr a \<and> color a = ''red'' \<and> name a = ''0''
        \<and> init_pos a = (1, 0)" by blast
  from e Agent_init_first_goal_first_agent [of ex_state_empty _ _ _ _ _ _ _ _ _ _ None]
  have 2: "Agent_init ex_state_empty None = Inl IndexError" by blast
  from 1 2 show ?thesis by blast
qed

section \<open>Search and the status update of \<open>solve\<close>\<close>

lemma broadcast_keeps:
  "broadcast P a = (r, a') \<Longrightarrow>
     status a' = status a \<and> saved_solution a' = saved_solution a \<and> name a' = name a"
  by (auto simp: broadcast_def send_success_def Let_def
           split: if_splits sum.splits option.splits prod.splits)

lemma search_goal_leaf:
  "isGoalState P (strategy_leaf P st) \<Longrightarrow> search P fuel a st = Some (Inr (Some [], a))"
  by (simp add: search_def)

text \<open>
  C9. If the leaf of the fresh strategy is a goal state, \<open>search\<close> returns the empty plan
  whatever the fuel, and \<open>solve\<close> (once it reaches the search: the agent is not a settled
  \<open>ok\<close> agent and the inbox block did not raise) ends with status \<open>ok\<close> and the
  empty plan saved and returned: the empty plan counts as a plan.
\<close>

theorem solve_goal_leaf_empty_plan_ok:
  assumes inbox: "solve_inbox a inbox = (Inr (), a1, inbox1)"
    and fresh: "\<not> (status a = STATUS_ok \<and> helping a = None)"
    and goal: "isGoalState P (strategy_leaf P (strategy_new P (task a1) (heuristic a1)))"
  shows "search P fuel a1 (strategy_new P (task a1) (heuristic a1)) = Some (Inr (Some [], a1))
       \<and> (\<exists>r a'. solve P fuel a inbox = Some (r, a', inbox1)
                \<and> status a' = STATUS_ok \<and> saved_solution a' = Some []
                \<and> (\<forall>path msg. r = Inr (path, msg) \<longrightarrow> path = Some []))"
proof -
  let ?st = "strategy_new P (task a1) (heuristic a1)"
  let ?a3 = "a1\<lparr>status := STATUS_ok, saved_solution := Some []\<rparr>"
  have s: "search P fuel a1 ?st = Some (Inr (Some [], a1))"
    using goal by (rule search_goal_leaf)
  obtain r a4 where b: "broadcast P ?a3 = (r, a4)" by (cases "broadcast P ?a3")
  from broadcast_keeps [OF b]
  have k: "status a4 = STATUS_ok" "saved_solution a4 = Some []" by simp_all
  have "solve P fuel a inbox =
          Some (case r of Inl e \<Rightarrow> Inl e | Inr msg \<Rightarrow> Inr (Some [], msg), a4, inbox1)"
    using fresh inbox s b by (auto simp: solve_def Let_def split: sum.splits)
  with k s show ?thesis by (auto split: sum.splits)
qed

lemma search_loop_ResourceLimit:
  "\<not> isGoalState P (strategy_leaf P st) \<Longrightarrow>
   (\<forall>j<k. \<not> MAX_USAGE P < get_usage P (n + j)
          \<and> \<not> strategy_frontier_empty P (strategy_explore_and_add P ((strategy_step P ^^ j) st))
          \<and> \<not> isGoalState P (strategy_leaf P ((strategy_step P ^^ Suc j) st))) \<Longrightarrow>
   MAX_USAGE P < get_usage P (n + k) \<Longrightarrow> k < fuel \<Longrightarrow>
   search_loop P fuel n it a st = Some (Inl ResourceLimit)"
proof (induction k arbitrary: fuel n it st)
  case 0
  then obtain f' where "fuel = Suc f'" by (cases fuel) auto
  with 0 show ?case by (simp add: Let_def)
next
  case (Suc k)
  then obtain f' where f: "fuel = Suc f'" and kf: "k < f'" by (cases fuel) auto
  from Suc.prems(2) have j0: "\<not> MAX_USAGE P < get_usage P n"
      "\<not> strategy_frontier_empty P (strategy_explore_and_add P st)"
      "\<not> isGoalState P (strategy_leaf P (strategy_step P st))"
    by (auto dest: spec [of _ 0])
  have rest: "\<forall>j<k. \<not> MAX_USAGE P < get_usage P (Suc n + j)
          \<and> \<not> strategy_frontier_empty P (strategy_explore_and_add P ((strategy_step P ^^ j) (strategy_step P st)))
          \<and> \<not> isGoalState P (strategy_leaf P ((strategy_step P ^^ Suc j) (strategy_step P st)))"
  proof (intro allI impI)
    fix j assume "j < k"
    then have "Suc j < Suc k" by simp
    with Suc.prems(2) have
      "\<not> MAX_USAGE P < get_usage P (n + Suc j)
          \<and> \<not> strategy_frontier_empty P (strategy_explore_and_add P ((strategy_step P ^^ Suc j) st))
          \<and> \<not> isGoalState P (strategy_leaf P ((strategy_step P ^^ Suc (Suc j)) st))"
      by blast
    then show "\<not> MAX_USAGE P < get_usage P (Suc n + j)
          \<and> \<not> strategy_frontier_empty P (strategy_explore_and_add P ((strategy_step P ^^ j) (strategy_step P st)))
          \<and> \<not> isGoalState P (strategy_leaf P ((strategy_step P ^^ Suc j) (strategy_step P st)))"
      by (simp add: funpow_swap1)
  qed
  from Suc.prems(3) have brk: "MAX_USAGE P < get_usage P (Suc n + k)" by simp
  have "search_loop P f' (Suc n) it' a (strategy_step P st) = Some (Inl ResourceLimit)" for it'
    by (rule Suc.IH [OF j0(3) rest brk kf])
  with Suc.prems(1) j0 f show ?case
    by (simp add: Let_def strategy_step_def)
qed

lemma consume_message_keeps:
  "consume_message a m = (r, a') \<Longrightarrow>
     status a' = status a \<and> saved_solution a' = saved_solution a \<and> name a' = name a"
  by (auto simp: consume_message_def Let_def split: if_splits option.splits list.splits)

lemma inbox_loop_keeps:
  "inbox_loop a i ms = (r, a') \<Longrightarrow>
     status a' = status a \<and> saved_solution a' = saved_solution a \<and> name a' = name a"
proof (induction ms arbitrary: i)
  case Nil
  then show ?case by simp
next
  case (Cons m ms)
  show ?case
  proof (cases "requester m = name a")
    case True
    obtain r1 a1 where c: "consume_message a m = (r1, a1)" by (cases "consume_message a m")
    with True Cons.prems have "a' = a1" by (auto split: sum.splits)
    with consume_message_keeps [OF c] show ?thesis by simp
  next
    case False
    with Cons show ?thesis by simp
  qed
qed

lemma solve_inbox_keeps:
  "solve_inbox a inbox = (r, a1, inbox1) \<Longrightarrow>
     status a1 = status a \<and> saved_solution a1 = saved_solution a \<and> name a1 = name a
     \<and> inbox1 = inbox"
proof -
  assume s: "solve_inbox a inbox = (r, a1, inbox1)"
  obtain r0 a0 where l: "inbox_loop a 0 inbox = (r0, a0)" by (cases "inbox_loop a 0 inbox")
  from s l have "a1 = a \<or> a1 = a0" and "inbox1 = inbox"
    by (auto simp: solve_inbox_def split: if_splits sum.splits)
  with inbox_loop_keeps [OF l] show ?thesis by auto
qed

text \<open>
  C4, as the code has it. When the reading of the \<open>k\<close>-th poll exceeds the ceiling (the
  search having gone on until then), \<open>search\<close> raises ResourceLimit; \<open>solve\<close> does not
  catch it, so the exception leaves \<open>solve\<close> and the status and the saved plan stay as
  they were before the call.
\<close>

theorem solve_memory_breach_raises:
  assumes inbox: "solve_inbox a inbox = (Inr (), a1, inbox1)"
    and fresh: "\<not> (status a = STATUS_ok \<and> helping a = None)"
    and start: "st = strategy_new P (task a1) (heuristic a1)"
    and notgoal: "\<not> isGoalState P (strategy_leaf P st)"
    and before: "\<forall>j<k. \<not> MAX_USAGE P < get_usage P j
          \<and> \<not> strategy_frontier_empty P (strategy_explore_and_add P ((strategy_step P ^^ j) st))
          \<and> \<not> isGoalState P (strategy_leaf P ((strategy_step P ^^ Suc j) st))"
    and breach: "MAX_USAGE P < get_usage P k"
    and fuel: "k < fuel"
  shows "search P fuel a1 st = Some (Inl ResourceLimit)
       \<and> solve P fuel a inbox = Some (Inl ResourceLimit, a1, inbox1)
       \<and> status a1 = status a \<and> saved_solution a1 = saved_solution a"
proof -
  have "search_loop P fuel 0 0 a1 st = Some (Inl ResourceLimit)"
    using notgoal before breach fuel
    by (intro search_loop_ResourceLimit [where k = k]) simp_all
  with notgoal have s: "search P fuel a1 st = Some (Inl ResourceLimit)"
    by (simp add: search_def)
  with fresh inbox start
  have "solve P fuel a inbox = Some (Inl ResourceLimit, a1, inbox1)"
    by (auto simp: solve_def Let_def)
  with s solve_inbox_keeps [OF inbox] show ?thesis by simp
qed

lemma ex_agent_inbox_empty: "solve_inbox ex_agent [] = (Inr (), ex_agent, [])"
  by (simp add: solve_inbox_def)

lemma ex_state_not_goal: "\<not> ex_isGoalState ex_state"
  by (simp add: ex_isGoalState_def ex_state_def)

lemma ex_state_solved_goal: "ex_isGoalState ex_state_solved"
  by (simp add: ex_isGoalState_def ex_state_def ex_state_solved_def)

theorem solve_memory_breach_raises_witness:
  "search ex_env_walk 3 ex_agent 0 = Some (Inl ResourceLimit)
   \<and> solve ex_env_walk 3 ex_agent [] = Some (Inl ResourceLimit, ex_agent, [])
   \<and> status ex_agent = STATUS_init"
proof -
  have a: "solve_inbox ex_agent [] = (Inr (), ex_agent, [])"
    by (simp add: solve_inbox_def)
  have b: "\<not> (status ex_agent = STATUS_ok \<and> helping ex_agent = None)"
    by (simp add: ex_agent_def)
  have c: "(0::nat) = strategy_new ex_env_walk (task ex_agent) (heuristic ex_agent)"
    by (simp add: ex_env_walk_def)
  have d: "\<not> isGoalState ex_env_walk (strategy_leaf ex_env_walk (0::nat))"
    using ex_state_not_goal by (simp add: ex_env_walk_def)
  have e: "\<forall>j<2. \<not> MAX_USAGE ex_env_walk < get_usage ex_env_walk j
          \<and> \<not> strategy_frontier_empty ex_env_walk
                (strategy_explore_and_add ex_env_walk ((strategy_step ex_env_walk ^^ j) (0::nat)))
          \<and> \<not> isGoalState ex_env_walk
                (strategy_leaf ex_env_walk ((strategy_step ex_env_walk ^^ Suc j) (0::nat)))"
    using ex_state_not_goal by (auto simp: ex_env_walk_def less_Suc_eq numeral_2_eq_2)
  have f: "MAX_USAGE ex_env_walk < get_usage ex_env_walk 2"
    by (simp add: ex_env_walk_def)
  have g: "(2::nat) < 3" by simp
  from solve_memory_breach_raises [OF a b c d e f g]
  show ?thesis by (simp add: ex_agent_def)
qed

theorem solve_goal_leaf_empty_plan_ok_witness:
  "search ex_env 0 ex_agent_solved ex_state_solved = Some (Inr (Some [], ex_agent_solved))
   \<and> (\<exists>r a'. solve ex_env 0 ex_agent_solved [] = Some (r, a', [])
            \<and> status a' = STATUS_ok \<and> saved_solution a' = Some [])"
proof -
  have a: "solve_inbox ex_agent_solved [] = (Inr (), ex_agent_solved, [])"
    by (simp add: solve_inbox_def)
  have b: "\<not> (status ex_agent_solved = STATUS_ok \<and> helping ex_agent_solved = None)"
    by (simp add: ex_agent_solved_def ex_agent_def)
  have t: "strategy_new ex_env (task ex_agent_solved) (heuristic ex_agent_solved) = ex_state_solved"
    by (simp add: ex_env_def ex_agent_solved_def)
  have c: "isGoalState ex_env (strategy_leaf ex_env
             (strategy_new ex_env (task ex_agent_solved) (heuristic ex_agent_solved)))"
    using ex_state_solved_goal by (simp add: ex_env_def ex_agent_solved_def)
  from solve_goal_leaf_empty_plan_ok [OF a b c, of 0] t
  show ?thesis by auto
qed

text \<open>
  C4 as stated fails: with a ceiling of 32 and a reading of 100 the search raises instead
  of returning no plan, the exception leaves \<open>solve\<close>, and the agent is not set to
  \<open>fail\<close>.
\<close>

theorem solve_memory_breach_counterexample:
  "search ex_env_low_memory 1 ex_agent ex_state = Some (Inl ResourceLimit)
   \<and> solve ex_env_low_memory 1 ex_agent [] = Some (Inl ResourceLimit, ex_agent, [])
   \<and> status ex_agent \<noteq> STATUS_fail"
  using ex_state_not_goal
  by (simp add: solve_def solve_inbox_def search_def Let_def ex_env_low_memory_def ex_env_def ex_agent_def)

section \<open>The inbox block of \<open>solve\<close>\<close>

lemma inbox_loop_first_match:
  "\<forall>x \<in> set pre. requester x \<noteq> name a \<Longrightarrow> requester m = name a \<Longrightarrow>
   consume_message a m = (Inr (), a') \<Longrightarrow>
   inbox_loop a i (pre @ m # post) = (Inr (Some (i + length pre)), a')"
  by (induction pre arbitrary: i) auto

lemma solve_inbox_first_match:
  assumes "status a = STATUS_fail"
    and "\<forall>x \<in> set pre. requester x \<noteq> name a" and "requester m = name a"
    and "consume_message a m = (Inr (), a')"
  shows "solve_inbox a (pre @ m # post)
           = ((if pre = [] then Inr () else Inl TypeError), a', pre @ m # post)"
  using assms inbox_loop_first_match [OF assms(2,3,4), of 0 post]
  by (simp add: solve_inbox_def truthy_def)

text \<open>
  C1 on the code. A failed agent \<open>0\<close> whose inbox holds one answer addressed to it
  consumes the answer (the overlay appears in its task) and the inbox still holds the
  message: the index 0 makes \<open>if to_del\<close> false. With the answer at index 1 the deletion
  is attempted with the message as index and raises TypeError; the inbox is unchanged.
\<close>

theorem solve_inbox_keeps_consumed_message:
  "solve_inbox ex_agent_failed [ex_reply] = (Inr (), ex_agent_consumed, [ex_reply])
   \<and> solve_inbox ex_agent_failed [ex_request, ex_reply]
       = (Inl TypeError, ex_agent_consumed, [ex_request, ex_reply])"
  by code_simp

section \<open>\<open>broadcast\<close>\<close>

lemma broadcast_failed_no_problem:
  "status a = STATUS_fail \<Longrightarrow> identify_problem P a = Inr None \<Longrightarrow>
   broadcast P a = (Inl TypeError, a)"
  by (simp add: broadcast_def sos_def)

lemma broadcast_failed_helping:
  assumes "status a = STATUS_fail" and "helping a = Some hm" and "sos P a = Inr m"
  shows "fst (broadcast P a)
           = Inr (Some \<lparr>object_problem = object_problem hm, msg_color = msg_color hm,
                         requester = requester hm, msg_status = STATUS_fail,
                         time = bestPath_format P (forget_exploration (task a)) (object_problem hm)\<rparr>)"
  using assms by (simp add: broadcast_def send_success_def Message_init_def Let_def)

text \<open>
  C2 on the code. A failed agent that is helping: \<open>_sos\<close> builds the SOS about box \<open>B\<close>,
  and the second \<open>if\<close> replaces it by the message of \<open>_send_success\<close>, addressed to the
  helped agent \<open>1\<close>, with status \<open>fail\<close> and a timeline. The SOS is not broadcast.
\<close>

theorem broadcast_failed_helper_drops_sos:
  "sos ex_env ex_agent_failed_helping
     = Inr \<lparr>object_problem = ''B'', msg_color = ''blue'', requester = ''0'',
            msg_status = STATUS_fail, time = None\<rparr>
   \<and> broadcast ex_env ex_agent_failed_helping
     = (Inr (Some \<lparr>object_problem = ''A'', msg_color = ''red'', requester = ''1'',
                   msg_status = STATUS_fail, time = Some [(0, (1, 2)), (1, (2, 2))]\<rparr>),
        ex_agent_failed_helping\<lparr>task := forget_exploration ex_state_blocked, helping := None\<rparr>)"
  by code_simp

text \<open>
  C8 on the code. A failed agent with no box of another colour: \<open>_identify_problem\<close>
  returns \<open>None\<close> and \<open>broadcast\<close> raises TypeError; no SOS is produced.
\<close>

theorem broadcast_no_blocking_box_raises:
  "identify_problem ex_env ex_agent_failed = Inr None
   \<and> broadcast ex_env ex_agent_failed = (Inl TypeError, ex_agent_failed)"
  by code_simp

section \<open>\<open>marginal_task_cost\<close>\<close>

lemma heuristic_call_returns_None:
  "heuristic_call hr states = Inr (ss, r) \<Longrightarrow> r = None"
  by (cases hr) (auto simp: heuristic_call_def bind_err_Inr_iff)

lemma marginal_task_cost_always_inf:
  "marginal_task_cost a bt = Inr (c, bt') \<Longrightarrow> c = PInf"
  by (auto simp: marginal_task_cost_def bind_err_Inr_iff Let_def
           dest!: heuristic_call_returns_None split: if_splits)

text \<open>
  C3 on the code. For the red agent \<open>0\<close> and a red one-goal subtask, EasyRule scores the
  subtask with \<open>h = 4\<close>, \<open>f = 20\<close> and the joint task with \<open>h = 7\<close>, so the claim asks for a
  finite difference; the code takes the Python result of the heuristic call, which is
  \<open>None\<close>, replaces it by infinity and returns infinity.
\<close>

theorem marginal_task_cost_same_color_inf:
  "marginal_task_cost ex_agent ex_subtask = Inr (PInf, ex_subtask\<lparr>state_h := 4, state_f := 20\<rparr>)
   \<and> EasyRule_state (addGoal (task ex_agent) ''A'' (2, 3) ''red'')
       = Inr ((addGoal (task ex_agent) ''A'' (2, 3) ''red'')\<lparr>state_h := 7, state_f := 35\<rparr>)"
  by code_simp

section \<open>WeightedRule and the case of the weight\<close>

lemma lower_char_not_upper: "\<not> (65 \<le> (of_char (lower_char c) :: nat) \<and> (of_char (lower_char c) :: nat) \<le> 90)"
  by (auto simp: lower_char_def Let_def)

lemma lower_ne_weight_with_upper:
  assumes "c \<in> set w" and "65 \<le> (of_char c :: nat)" and "(of_char c :: nat) \<le> 90"
  shows "lower k \<noteq> w"
proof
  assume "lower k = w"
  with assms(1) obtain d where "c = lower_char d" by (auto simp: lower_def)
  with assms(2,3) lower_char_not_upper [of d] show False by simp
qed

text \<open>
  C5 on the code. With the upper-case weight \<open>A\<close> of a box key, the goal of key \<open>A\<close>
  (box-to-goal distance 2, agent-to-box distance 1) is scored \<open>h = 3\<close>, as by EasyRule:
  \<open>key.lower()\<close> is \<open>a\<close> and differs from the weight. Only the lower-case weight \<open>a\<close>
  gives the weighted \<open>h = 2 * 10 + 1 = 21\<close>.
\<close>

theorem WeightedRule_upper_case_weight_unweighted:
  "WeightedRule_state ''A'' ex_state = Inr (ex_state\<lparr>state_h := 3, state_f := 15\<rparr>)
   \<and> EasyRule_state ex_state = Inr (ex_state\<lparr>state_h := 3, state_f := 15\<rparr>)
   \<and> WeightedRule_state ''a'' ex_state = Inr (ex_state\<lparr>state_h := 21, state_f := 105\<rparr>)"
  by code_simp

section \<open>dGraph\<close>

lemma dGraph_state_never_returns: "dGraph_state s \<noteq> Inr s'"
  by (auto simp: dGraph_state_def bind_err_Inr_iff)

lemma dGraph_state_NameError:
  "agents s = (ak, ae # aes) # ar \<Longrightarrow> boxes s = (bk, be # bes) # br \<Longrightarrow>
   goals s = (gk, ge # ges) # gr \<Longrightarrow> dGraph_state s = Inl NameError"
  by (simp add: dGraph_state_def)

text \<open>
  C7 on the code. On states with an agent, a box and a goal the call of the dGraph
  heuristic raises NameError; it sets neither \<open>h\<close> nor \<open>f\<close>.
\<close>

theorem dGraph_call_raises_NameError:
  "heuristic_call dGraph [ex_state] = Inl NameError
   \<and> heuristic_call dGraph [ex_state_solved] = Inl NameError"
  by code_simp

section \<open>The frontier of the A* kernel\<close>

lemma calc_state_f:
  "calc_state ks s = Inr s' \<Longrightarrow> state_f s' = state_g s' + state_h s' \<and> state_g s' = state_g s"
  by (auto simp: calc_state_def bind_err_Inr_iff Let_def)

lemma score_states_all:
  "score_states sc ss = Inr ss' \<Longrightarrow> (\<And>s s'. sc s = Inr s' \<Longrightarrow> Q s') \<Longrightarrow> list_all Q ss'"
  by (induction ss arbitrary: ss') (auto simp: bind_err_Inr_iff)

lemma calc_heuristic_for_f:
  "calc_heuristic_for ss = Inr ss' \<Longrightarrow> list_all (\<lambda>s. state_f s = state_g s + state_h s) ss'"
proof (cases ss)
  case Nil
  assume "calc_heuristic_for ss = Inr ss'"
  with Nil show ?thesis by (simp add: calc_heuristic_for_def)
next
  case (Cons s0 rest)
  assume "calc_heuristic_for ss = Inr ss'"
  with Cons have "score_states (calc_state (getGoalKeys s0)) ss = Inr ss'"
    by (simp add: calc_heuristic_for_def)
  then show ?thesis
    by (rule score_states_all) (simp add: calc_state_f)
qed

lemma put_all_eq:
  "put_all ss cnt fr =
     (cnt + length ss, fr @ map (\<lambda>(i, s). (state_f s, i, s)) (enumerate (cnt + 1) ss))"
  by (induction ss arbitrary: cnt fr) simp_all

lemma entry_less_irrefl: "\<not> entry_less a a"
  by (simp add: entry_less_def)

lemma entry_ge_trans: "\<not> entry_less b a \<Longrightarrow> \<not> entry_less c b \<Longrightarrow> \<not> entry_less c a"
  by (auto simp: entry_less_def)

lemma pq_min_mem: "pq_min m es \<in> set (m # es)"
  by (induction es arbitrary: m) auto

lemma pq_min_below_start: "\<not> entry_less m (pq_min m es)"
proof (induction es arbitrary: m)
  case Nil
  show ?case by (simp add: entry_less_irrefl)
next
  case (Cons x es)
  show ?case
  proof (cases "entry_less x m")
    case True
    then have "\<not> entry_less m x" by (auto simp: entry_less_def)
    from entry_ge_trans [OF Cons [of x] this] True show ?thesis by simp
  next
    case False
    with Cons [of m] show ?thesis by simp
  qed
qed

lemma pq_min_least: "e \<in> set (m # es) \<Longrightarrow> \<not> entry_less e (pq_min m es)"
proof (induction es arbitrary: m)
  case Nil
  then show ?case by (simp add: entry_less_irrefl)
next
  case (Cons x es)
  let ?m' = "if entry_less x m then x else m"
  have m': "\<not> entry_less ?m' (pq_min ?m' es)" by (rule pq_min_below_start)
  have step: "pq_min m (x # es) = pq_min ?m' es" by simp
  from Cons.prems consider "e = m" | "e = x" | "e \<in> set es" by auto
  then show ?case
  proof cases
    case 1
    have "\<not> entry_less m ?m'" by (auto simp: entry_less_def)
    from entry_ge_trans [OF m' this] 1 step show ?thesis by simp
  next
    case 2
    have "\<not> entry_less x ?m'" by (auto simp: entry_less_def)
    from entry_ge_trans [OF m' this] 2 step show ?thesis by simp
  next
    case 3
    then have "e \<in> set (?m' # es)" by simp
    from Cons.IH [OF this] step show ?thesis by simp
  qed
qed

lemma new_entries_counters:
  "map (fst \<circ> snd) (map (\<lambda>(i, s). (state_f s, i, s)) (enumerate n ss)) = [n ..< n + length ss]"
proof -
  have "map (fst \<circ> snd) (map (\<lambda>(i, s). (state_f s, i, s)) (enumerate n ss))
          = map fst (enumerate n ss)"
    by (simp add: case_prod_beta comp_def)
  then show ?thesis by simp
qed

lemma BestFirstSearch_init_inv: "BestFirstSearch_init s = Inr srch \<Longrightarrow> frontier_inv srch"
  by (auto simp: BestFirstSearch_init_def bind_err_Inr_iff frontier_inv_def)

text \<open>
  C6, as the code has it. One call of \<open>get_and_remove_leaf\<close> on a search that satisfies
  the invariant: the scored successors \<open>ss\<close> are put with priority \<open>f\<close>, where
  \<open>f = g + h\<close> (no factor 5), under the counters \<open>count + 1, count + 2, ...\<close>; the
  counters increase strictly along the insertion order; the entry \<open>m\<close> handed out has
  the least priority, every entry put before it has a strictly greater priority and every
  entry put after it a priority at least as great, so among equal priorities the one put
  first is taken; and the invariant holds again. It holds initially
  (\<open>BestFirstSearch_init_inv\<close>).
\<close>

theorem aStar_priority_and_fifo:
  assumes inv: "frontier_inv srch"
    and step: "aStarSearch_get_and_remove_leaf explore srch = Some (Inr srch')"
  shows "\<exists>ss xs m ys.
       calc_heuristic_for (explore (leaf srch)) = Inr ss
     \<and> list_all (\<lambda>s. state_f s = state_g s + state_h s) ss
     \<and> frontier srch @ map (\<lambda>(i, s). (state_f s, i, s)) (enumerate (count srch + 1) ss)
         = xs @ m # ys
     \<and> sorted_wrt (<) (map (fst \<circ> snd) (xs @ m # ys))
     \<and> list_all (\<lambda>e. fst m < fst e) xs \<and> list_all (\<lambda>e. fst m \<le> fst e) ys
     \<and> leaf srch' = snd (snd m) \<and> frontier srch' = xs @ ys
     \<and> count srch' = count srch + length ss
     \<and> frontier_inv srch'"
proof -
  from step obtain ss where cf: "calc_heuristic_for (explore (leaf srch)) = Inr ss"
    by (auto simp: aStarSearch_get_and_remove_leaf_def split: sum.splits)
  define new where "new = map (\<lambda>(i, s). (state_f s, i, s)) (enumerate (count srch + 1) ss)"
  define fr where "fr = frontier srch @ new"
  have put: "put_all ss (count srch) (frontier srch) = (count srch + length ss, fr)"
    by (simp add: put_all_eq fr_def new_def)
  from step cf put obtain m fr' where get: "pq_get fr = Some (m, fr')"
    and s': "srch' = \<lparr>frontier = fr', leaf = snd (snd m), count = count srch + length ss\<rparr>"
    by (auto simp: aStarSearch_get_and_remove_leaf_def split: option.splits)
  from get obtain e es where fr_e: "fr = e # es" and m: "m = pq_min e es"
    and fr': "fr' = remove1 m fr"
    by (auto simp: pq_get_def Let_def split: list.splits)
  have f: "list_all (\<lambda>s. state_f s = state_g s + state_h s) ss"
    using cf by (rule calc_heuristic_for_f)
  \<comment> \<open>the counters increase strictly along the insertion order\<close>
  have cnew: "map (fst \<circ> snd) new = [count srch + 1 ..< count srch + 1 + length ss]"
    unfolding new_def by (rule new_entries_counters)
  from inv have old_sorted: "sorted_wrt (<) (map (fst \<circ> snd) (frontier srch))"
    and old_le: "\<forall>x \<in> set (frontier srch). fst (snd x) \<le> count srch"
    by (simp_all add: frontier_inv_def list_all_iff)
  have new_gt: "\<forall>y \<in> set (map (fst \<circ> snd) new). count srch < y \<and> y \<le> count srch + length ss"
    unfolding cnew by auto
  have sorted_fr: "sorted_wrt (<) (map (fst \<circ> snd) fr)"
    unfolding fr_def map_append sorted_wrt_append
    using old_sorted old_le new_gt cnew by (auto simp del: upt_Suc) 
  have le_fr: "\<forall>x \<in> set fr. fst (snd x) \<le> count srch + length ss"
    using old_le new_gt by (auto simp: fr_def)
  \<comment> \<open>the entry handed out and its place in the queue\<close>
  have "m \<in> set fr" using pq_min_mem [of e es] by (simp add: fr_e m)
  then obtain xs ys where split: "fr = xs @ m # ys"
    by (auto dest: split_list)
  from sorted_fr have sorted_split: "sorted_wrt (<) (map (fst \<circ> snd) (xs @ m # ys))"
    by (simp add: split)
  then have before: "\<forall>x \<in> set xs. fst (snd x) < fst (snd m)"
    by (auto simp: sorted_wrt_append)
  then have "m \<notin> set xs" by auto
  then have rem: "remove1 m fr = xs @ ys"
    by (simp add: split remove1_append)
  have least: "\<not> entry_less x m" if "x \<in> set fr" for x
    using that pq_min_least [of x e es] by (simp add: fr_e m)
  have xs_gt: "list_all (\<lambda>x. fst m < fst x) xs"
    unfolding list_all_iff
  proof
    fix x assume x: "x \<in> set xs"
    with least [of x] have "\<not> entry_less x m" by (simp add: split)
    with before x show "fst m < fst x" by (auto simp: entry_less_def)
  qed
  have ys_ge: "list_all (\<lambda>y. fst m \<le> fst y) ys"
    unfolding list_all_iff
  proof
    fix y assume "y \<in> set ys"
    with least [of y] have "\<not> entry_less y m" by (simp add: split)
    then show "fst m \<le> fst y" by (auto simp: entry_less_def)
  qed
  have fs': "frontier srch' = xs @ ys" "count srch' = count srch + length ss"
      "leaf srch' = snd (snd m)"
    by (simp_all add: s' fr' rem)
  from le_fr have le_split: "\<forall>x \<in> set (xs @ ys). fst (snd x) \<le> count srch + length ss"
    by (simp add: split)
  have inv': "frontier_inv srch'"
    using sorted_split le_split
    by (auto simp: frontier_inv_def fs' sorted_wrt_append list_all_iff)
  have eq: "frontier srch @ map (\<lambda>(i, s). (state_f s, i, s)) (enumerate (count srch + 1) ss)
              = xs @ m # ys"
    using split by (simp add: fr_def new_def)
  from cf f eq sorted_split xs_gt ys_ge fs' inv' show ?thesis by blast
qed

theorem aStar_priority_and_fifo_witness:
  "frontier_inv ex_search_1
   \<and> aStarSearch_get_and_remove_leaf ex_explore ex_search_1 = Some (Inr ex_search_2)
   \<and> (\<exists>ss xs m ys.
       calc_heuristic_for (ex_explore (leaf ex_search_1)) = Inr ss
     \<and> list_all (\<lambda>s. state_f s = state_g s + state_h s) ss
     \<and> frontier ex_search_1 @ map (\<lambda>(i, s). (state_f s, i, s)) (enumerate (count ex_search_1 + 1) ss)
         = xs @ m # ys
     \<and> sorted_wrt (<) (map (fst \<circ> snd) (xs @ m # ys))
     \<and> list_all (\<lambda>e. fst m < fst e) xs \<and> list_all (\<lambda>e. fst m \<le> fst e) ys
     \<and> leaf ex_search_2 = snd (snd m) \<and> frontier ex_search_2 = xs @ ys
     \<and> count ex_search_2 = count ex_search_1 + length ss
     \<and> frontier_inv ex_search_2)"
proof -
  have inv: "frontier_inv ex_search_1" by code_simp
  have step: "aStarSearch_get_and_remove_leaf ex_explore ex_search_1 = Some (Inr ex_search_2)"
    by code_simp
  from inv step aStar_priority_and_fifo [OF inv step] show ?thesis by blast
qed

text \<open>
  C6 as stated fails on the priority: the successor with \<open>g = 1\<close> and \<open>h = 4\<close> is put
  with priority \<open>5 = g + h\<close>, while \<open>g + 5 * h = 21\<close>.
\<close>

theorem aStar_priority_counterexample:
  "BestFirstSearch_init ex_state = Inr ex_search
   \<and> aStarSearch_get_and_remove_leaf ex_explore ex_search = Some (Inr ex_search_1)
   \<and> frontier ex_search_1 = [(5, 1, (ex_moved ex_state)\<lparr>state_g := 1, state_h := 4, state_f := 5\<rparr>)]
   \<and> state_g ((ex_moved ex_state)\<lparr>state_g := 1, state_h := 4, state_f := 5\<rparr>)
       + 5 * state_h ((ex_moved ex_state)\<lparr>state_g := 1, state_h := 4, state_f := 5\<rparr>) = 21"
  by code_simp

end
